theory Spec2Isabelle
  imports Main
begin

section \<open>Receipt OCR application: text extraction and record parsing\<close>

text \<open>
  A shallow embedding of \<^verbatim>\<open>streamlit_app.py\<close>: the parser \<^verbatim>\<open>parse_receipt\<close>, the
  preprocessing of \<^verbatim>\<open>ocr_core\<close>, the start-up connection to the document store and
  the page function \<^verbatim>\<open>main\<close>. Library calls (Python's \<^verbatim>\<open>str\<close> methods, the pandas
  constructors, OpenCV's colour conversion) are modelled after their documented
  behaviour; the recognition engine, the thresholding, the grid widget and the
  document store are parameters.
\<close>

subsection \<open>Python strings\<close>

text \<open>
  A Python \<^verbatim>\<open>str\<close> is a sequence of Unicode code points; a code point is a natural
  number here. \<open>py\<close> turns an ASCII literal into such a string.
\<close>

type_synonym py_str = "nat list"

definition py :: "string \<Rightarrow> py_str" where
  "py s = map of_char s"

abbreviation colon :: nat where
  "colon \<equiv> 58"

abbreviation newline :: nat where
  "newline \<equiv> 10"

text \<open>
  \<^verbatim>\<open>str.isspace\<close> on one character: the code points Python classifies as whitespace
  (bidirectional type WS, B or S, or category Zs).
\<close>

definition isspace :: "nat \<Rightarrow> bool" where
  "isspace c =
     ((9 \<le> c \<and> c \<le> 13) \<or> (28 \<le> c \<and> c \<le> 32) \<or> c = 133 \<or> c = 160 \<or> c = 5760 \<or>
      (8192 \<le> c \<and> c \<le> 8202) \<or> c = 8232 \<or> c = 8233 \<or> c = 8239 \<or> c = 8287 \<or>
      c = 12288)"

text \<open>
  \<^verbatim>\<open>s.strip()\<close>: the left index moves right over whitespace, then the right index
  moves left over whitespace, and the slice between them is returned.
\<close>

definition py_lstrip :: "py_str \<Rightarrow> py_str" where
  "py_lstrip s = dropWhile isspace s"

definition py_rstrip :: "py_str \<Rightarrow> py_str" where
  "py_rstrip s = rev (dropWhile isspace (rev s))"

definition py_strip :: "py_str \<Rightarrow> py_str" where
  "py_strip s = py_rstrip (py_lstrip s)"

text \<open>
  \<^verbatim>\<open>s.split(sep, maxsplit)\<close> for a one-character separator: a scan from the left
  that closes the current piece at each separator while splits remain. The second
  argument is the number of splits left, \<open>None\<close> when unlimited (Python's default
  \<^verbatim>\<open>-1\<close>); the third is the piece being collected.
\<close>

fun split_scan :: "'a \<Rightarrow> nat option \<Rightarrow> 'a list \<Rightarrow> 'a list \<Rightarrow> 'a list list" where
  "split_scan sep m cur [] = [cur]"
| "split_scan sep m cur (c # cs) =
     (if c = sep \<and> m \<noteq> Some 0
      then cur # split_scan sep (map_option (\<lambda>n. n - 1) m) [] cs
      else split_scan sep m (cur @ [c]) cs)"

definition py_split :: "'a \<Rightarrow> nat option \<Rightarrow> 'a list \<Rightarrow> 'a list list" where
  "py_split sep maxsplit s = split_scan sep maxsplit [] s"

subsection \<open>Exceptions\<close>

datatype exn =
    ValueError
  | NameError
  | CvError
  | Raised string  \<comment> \<open>an exception raised by an external collaborator\<close>

subsection \<open>Dictionaries and data frames\<close>

text \<open>
  A Python dict keeps insertion order: an association list with distinct keys.
  \<^verbatim>\<open>d.pop(k, None)\<close> removes the key if present and never raises.
\<close>

type_synonym 'v dict = "(string \<times> 'v) list"

definition dict_pop :: "string \<Rightarrow> 'v dict \<Rightarrow> 'v dict" where
  "dict_pop k d = filter (\<lambda>kv. fst kv \<noteq> k) d"

text \<open>
  A pandas DataFrame: the column labels and the rows, each row holding one cell per
  column, \<open>None\<close> for a missing value (NaN).
\<close>

record 'v dataframe =
  columns :: "string list"
  rows :: "'v option list list"

text \<open>\<^verbatim>\<open>df.empty\<close>: true when any axis has length 0.\<close>

definition df_empty :: "'v dataframe \<Rightarrow> bool" where
  "df_empty df = (columns df = [] \<or> rows df = [])"

text \<open>
  \<^verbatim>\<open>pd.DataFrame(data)\<close> for a list of dicts: the columns are the keys in order of
  first appearance, each dict is one row.
\<close>

definition add_key :: "string \<Rightarrow> string list \<Rightarrow> string list" where
  "add_key k cols = (if k \<in> set cols then cols else cols @ [k])"

definition union_keys :: "'v dict list \<Rightarrow> string list" where
  "union_keys data = fold (\<lambda>d cols. fold add_key (map fst d) cols) data []"

definition DataFrame_records :: "'v dict list \<Rightarrow> 'v dataframe" where
  "DataFrame_records data =
     (let cols = union_keys data
      in \<lparr>columns = cols, rows = map (\<lambda>d. map (map_of d) cols) data\<rparr>)"

text \<open>
  \<^verbatim>\<open>pd.DataFrame(d)\<close> for a dict of lists: one column per key; the lists must have
  the same length, else pandas raises \<^verbatim>\<open>ValueError\<close>.
\<close>

definition DataFrame_dict :: "(string \<times> 'v list) list \<Rightarrow> exn + 'v dataframe" where
  "DataFrame_dict d =
     (if list_all (\<lambda>kv. length (snd kv) = length (snd (hd d))) d
      then Inr \<lparr>columns = map fst d, rows = transpose (map (\<lambda>kv. map Some (snd kv)) d)\<rparr>
      else Inl ValueError)"

text \<open>\<^verbatim>\<open>df.to_dict(orient='records')\<close>: one dict per row, keyed by column.\<close>

definition to_records :: "'v dataframe \<Rightarrow> 'v option dict list" where
  "to_records df = map (\<lambda>r. zip (columns df) r) (rows df)"

subsection \<open>The parser\<close>

text \<open>
  The loop of \<^verbatim>\<open>parse_receipt\<close> over the lines, with the list \<^verbatim>\<open>data\<close> as
  accumulator. The unpacking \<^verbatim>\<open>key, value = line.split(':', 1)\<close> raises
  \<^verbatim>\<open>ValueError\<close> unless the split has exactly two pieces.
\<close>

fun parse_lines :: "py_str list \<Rightarrow> py_str dict list \<Rightarrow> exn + py_str dict list" where
  "parse_lines [] data = Inr data"
| "parse_lines (line # lines) data =
     (if colon \<in> set line
      then (case py_split colon (Some 1) line of
              [key, value] \<Rightarrow>
                parse_lines lines
                  (data @ [[(''Field'', py_strip key), (''Value'', py_strip value)]])
            | _ \<Rightarrow> Inl ValueError)
      else parse_lines lines data)"

definition parse_receipt :: "py_str \<Rightarrow> exn + py_str dataframe" where
  "parse_receipt text =
     (let lines = py_split newline None text
      in case parse_lines lines [] of
           Inl e \<Rightarrow> Inl e
         | Inr data \<Rightarrow>
             (let df = DataFrame_records data
              in if df_empty df
                 then DataFrame_dict [(''Field'', []), (''Value'', [])]
                 else Inr df))"

subsection \<open>Image preprocessing and recognition\<close>

text \<open>
  The array \<^verbatim>\<open>np.array(image)\<close> of an opened image: height by width, with one to
  four channel values per pixel (a two-dimensional array has one channel). For a
  colour image the channels are in the order of the opened image: red, green, blue
  and, with four channels, alpha.
\<close>

datatype image =
    Img1 "nat list list"
  | Img2 "(nat \<times> nat) list list"
  | Img3 "(nat \<times> nat \<times> nat) list list"
  | Img4 "(nat \<times> nat \<times> nat \<times> nat) list list"

text \<open>
  OpenCV's 8-bit grey value of a pixel given as blue, green, red: the fixed-point form
  of \<open>0.114 B + 0.587 G + 0.299 R\<close>.
\<close>

definition bgr_to_gray :: "nat \<Rightarrow> nat \<Rightarrow> nat \<Rightarrow> nat" where
  "bgr_to_gray b g r = (b * 1868 + g * 9617 + r * 4899 + 8192) div 16384"

text \<open>
  \<^verbatim>\<open>cv2.cvtColor(image, cv2.COLOR_BGR2GRAY)\<close>: the source must be non-empty and have
  three or four channels, the first three read as blue, green, red; any other
  channel count raises \<^verbatim>\<open>cv2.error\<close>.
\<close>

fun cvtColor_BGR2GRAY :: "image \<Rightarrow> exn + nat list list" where
  "cvtColor_BGR2GRAY (Img3 px) =
     (if concat px = [] then Inl CvError
      else Inr (map (map (\<lambda>(c0, c1, c2). bgr_to_gray c0 c1 c2)) px))"
| "cvtColor_BGR2GRAY (Img4 px) =
     (if concat px = [] then Inl CvError
      else Inr (map (map (\<lambda>(c0, c1, c2, c3). bgr_to_gray c0 c1 c2)) px))"
| "cvtColor_BGR2GRAY (Img1 px) = Inl CvError"
| "cvtColor_BGR2GRAY (Img2 px) = Inl CvError"

text \<open>
  \<^verbatim>\<open>ocr_core\<close>. The Otsu thresholding \<^verbatim>\<open>cv2.threshold\<close> and the recognition engine
  \<^verbatim>\<open>pytesseract.image_to_string\<close> are parameters.
\<close>

definition ocr_core ::
  "(nat list list \<Rightarrow> nat list list) \<Rightarrow> (nat list list \<Rightarrow> exn + py_str) \<Rightarrow> image \<Rightarrow> exn + py_str"
where
  "ocr_core threshold_otsu image_to_string img =
     (case cvtColor_BGR2GRAY img of
        Inl e \<Rightarrow> Inl e
      | Inr gray \<Rightarrow> image_to_string (threshold_otsu gray))"

subsection \<open>The page\<close>

text \<open>
  What the page shows, in order. The fixed title, introduction and footer are left
  out, and messages are given without their pictographs; an error message carries
  the exception it reports.
\<close>

datatype 'd ui =
    SidebarSuccess string
  | SidebarError string exn
  | Info string
  | ImageView
  | Subheader string
  | TextArea py_str
  | Grid "py_str dataframe"
  | Success string
  | Error string exn
  | Warning string
  | StoredTable "'d dataframe"

text \<open>
  The external collaborators: opening the upload as an image (and its array), the
  thresholding, the recognition engine, the editable grid (the data it hands back)
  and the two store operations.
\<close>

record ('f, 's, 'd) env =
  Image_open :: "'f \<Rightarrow> exn + image"
  threshold_otsu :: "nat list list \<Rightarrow> nat list list"
  image_to_string :: "nat list list \<Rightarrow> exn + py_str"
  AgGrid :: "py_str dataframe \<Rightarrow> py_str dataframe"
  insert_many :: "'s \<Rightarrow> py_str option dict list \<Rightarrow> exn option"
  find_all :: "'s \<Rightarrow> exn + 'd dict list"

record 'f inputs =
  uploaded_file :: "'f option"
  save_clicked :: bool
  show_stored :: bool

text \<open>
  Module start-up: the \<^verbatim>\<open>try\<close> around the connection. On failure the name
  \<^verbatim>\<open>collection\<close> stays unbound (\<open>None\<close>), and a later use raises \<^verbatim>\<open>NameError\<close>.
\<close>

definition connect_store :: "exn + 's \<Rightarrow> 's option \<times> 'd ui list" where
  "connect_store conn =
     (case conn of
        Inr c \<Rightarrow> (Some c, [SidebarSuccess ''Connected to MongoDB successfully!''])
      | Inl e \<Rightarrow> (None, [SidebarError ''Error connecting to MongoDB'' e]))"

text \<open>
  The body of the save button: \<^verbatim>\<open>insert_many\<close> inside \<^verbatim>\<open>try\<close>; the handler
  catches every exception, the \<^verbatim>\<open>NameError\<close> of an unbound \<^verbatim>\<open>collection\<close> too.
\<close>

definition save_to_store ::
  "('f, 's, 'd) env \<Rightarrow> 's option \<Rightarrow> py_str dataframe \<Rightarrow> 'd ui list"
where
  "save_to_store E collection updated_df =
     (let records = to_records updated_df
      in case (case collection of
                 None \<Rightarrow> Some NameError
               | Some c \<Rightarrow> insert_many E c records) of
           None \<Rightarrow> [Success ''Data saved to MongoDB successfully!'']
         | Some e \<Rightarrow> [Error ''An error occurred while saving to MongoDB'' e])"

text \<open>
  The body of the stored-data checkbox, all inside \<^verbatim>\<open>try\<close>: read the collection,
  pop \<^verbatim>\<open>'_id'\<close> from every record, show the rest as a table.
\<close>

definition show_stored_data :: "('f, 's, 'd) env \<Rightarrow> 's option \<Rightarrow> 'd ui list" where
  "show_stored_data E collection =
     (case (case collection of
              None \<Rightarrow> Inl NameError
            | Some c \<Rightarrow> find_all E c) of
        Inl e \<Rightarrow> [Error ''Error fetching data from MongoDB'' e]
      | Inr stored_data \<Rightarrow>
          if stored_data \<noteq> []
          then [StoredTable (DataFrame_records (map (dict_pop ''_id'') stored_data))]
          else [Info ''No data found in MongoDB.''])"

abbreviation no_pairs_msg :: string where
  "no_pairs_msg \<equiv> ''No key-value pairs found in the extracted text. Please check the receipt format or improve the parsing logic.''"

text \<open>
  \<^verbatim>\<open>main\<close>: the events shown and the exception that leaves the function, if any.
  Nothing catches an exception of opening, recognition or parsing.
\<close>

definition main ::
  "('f, 's, 'd) env \<Rightarrow> 's option \<Rightarrow> 'f inputs \<Rightarrow> 'd ui list \<times> exn option"
where
  "main E collection inp =
     (case uploaded_file inp of
        None \<Rightarrow> ([Info ''Please upload a receipt image to get started.''], None)
      | Some f \<Rightarrow>
          (case Image_open E f of
             Inl e \<Rightarrow> ([], Some e)
           | Inr img \<Rightarrow>
               (case ocr_core (threshold_otsu E) (image_to_string E) img of
                  Inl e \<Rightarrow> ([ImageView], Some e)
                | Inr extracted_text \<Rightarrow>
                    (case parse_receipt extracted_text of
                       Inl e \<Rightarrow>
                         ([ImageView, Subheader ''Extracted Text'', TextArea extracted_text],
                          Some e)
                     | Inr df \<Rightarrow>
                         ([ImageView, Subheader ''Extracted Text'', TextArea extracted_text]
                          @ (if \<not> df_empty df
                             then [Subheader ''Editable Data Table'', Grid df]
                                  @ (if save_clicked inp
                                     then save_to_store E collection (AgGrid E df)
                                     else [])
                             else [Warning no_pairs_msg])
                          @ (if show_stored inp then show_stored_data E collection else []),
                          None)))))"

text \<open>One run of the script: the start-up connection, then \<^verbatim>\<open>main\<close>.\<close>

definition script ::
  "exn + 's \<Rightarrow> ('f, 's, 'd) env \<Rightarrow> 'f inputs \<Rightarrow> 'd ui list \<times> exn option"
where
  "script conn E inp =
     (case connect_store conn of
        (collection, started) \<Rightarrow>
          (case main E collection inp of
             (shown, raised) \<Rightarrow> (started @ shown, raised)))"

text \<open>The events of the recognition path, as opposed to those of the store.\<close>

fun ocr_event :: "'d ui \<Rightarrow> bool" where
  "ocr_event ImageView = True"
| "ocr_event (Subheader s) = True"
| "ocr_event (TextArea t) = True"
| "ocr_event (Grid df) = True"
| "ocr_event (Warning s) = True"
| "ocr_event u = False"

subsection \<open>The extraction contract in the words of the specification\<close>

text \<open>
  The field of a line with a delimiter is the part before its first colon, trimmed;
  the value is the rest after that colon, trimmed.
\<close>

definition spec_field :: "py_str \<Rightarrow> py_str" where
  "spec_field L = py_strip (takeWhile (\<lambda>c. c \<noteq> colon) L)"

definition spec_value :: "py_str \<Rightarrow> py_str" where
  "spec_value L = py_strip (tl (dropWhile (\<lambda>c. c \<noteq> colon) L))"

text \<open>A fixed environment and inputs, for concrete instances.\<close>

definition demo_env :: "exn + py_str \<Rightarrow> (unit, unit, nat) env" where
  "demo_env recognized =
     \<lparr>Image_open = (\<lambda>f. Inr (Img3 [[(255, 255, 255)]])),
      threshold_otsu = (\<lambda>g. g),
      image_to_string = (\<lambda>g. recognized),
      AgGrid = (\<lambda>df. df),
      insert_many = (\<lambda>c rs. None),
      find_all = (\<lambda>c. Inr [[(''_id'', 7), (''Field'', 1), (''Value'', 2)]])\<rparr>"

definition demo_inputs :: "unit inputs" where
  "demo_inputs = \<lparr>uploaded_file = Some (), save_clicked = False, show_stored = False\<rparr>"

section \<open>Properties\<close>

subsection \<open>Splitting\<close>

text \<open>
  With no split left the rest of the string is one piece; with one split left and a
  separator present the pieces are the text before the first separator and the text
  after it; an unlimited split of a string that ends in the separator ends in an
  empty piece.
\<close>

lemma split_scan_zero: "split_scan sep (Some 0) cur s = [cur @ s]"
  by (induction s arbitrary: cur) auto

lemma split_scan_one:
  "sep \<in> set s \<Longrightarrow>
   split_scan sep (Some (Suc 0)) cur s =
     [cur @ takeWhile (\<lambda>c. c \<noteq> sep) s, tl (dropWhile (\<lambda>c. c \<noteq> sep) s)]"
  by (induction s arbitrary: cur) (auto simp: split_scan_zero)

lemma split_scan_snoc_sep:
  "split_scan sep None cur (s @ [sep]) = split_scan sep None cur s @ [[]]"
  by (induction s arbitrary: cur) auto

lemma py_split_first:
  "sep \<in> set s \<Longrightarrow>
   py_split sep (Some (Suc 0)) s =
     [takeWhile (\<lambda>c. c \<noteq> sep) s, tl (dropWhile (\<lambda>c. c \<noteq> sep) s)]"
  using split_scan_one [of sep s "[]"] by (simp add: py_split_def)

lemma py_split_snoc_newline:
  "py_split newline None (T @ [newline]) = py_split newline None T @ [[]]"
  by (simp add: py_split_def split_scan_snoc_sep)

subsection \<open>The loop and the table\<close>

text \<open>
  The loop never raises: it appends one record per line with a colon, in order. The
  table built from such records has the columns Field and Value.
\<close>

lemma parse_lines_eq:
  "parse_lines ls data =
     Inr (data @ map (\<lambda>L. [(''Field'', spec_field L), (''Value'', spec_value L)])
                   (filter (\<lambda>L. colon \<in> set L) ls))"
  by (induction ls arbitrary: data)
     (simp_all add: py_split_first spec_field_def spec_value_def)

lemma fold_field_value:
  "list_all (\<lambda>d. map fst d = [''Field'', ''Value'']) data \<Longrightarrow>
   fold (\<lambda>d cols. fold add_key (map fst d) cols) data [''Field'', ''Value'']
     = [''Field'', ''Value'']"
  by (induction data) (simp_all add: add_key_def)

lemma union_keys_field_value:
  "data \<noteq> [] \<Longrightarrow> list_all (\<lambda>d. map fst d = [''Field'', ''Value'']) data \<Longrightarrow>
   union_keys data = [''Field'', ''Value'']"
  by (cases data) (simp_all add: union_keys_def add_key_def fold_field_value)

lemma DataFrame_records_lines:
  assumes "ls \<noteq> []"
  shows "DataFrame_records
           (map (\<lambda>L. [(''Field'', spec_field L), (''Value'', spec_value L)]) ls) =
         \<lparr>columns = [''Field'', ''Value''],
          rows = map (\<lambda>L. [Some (spec_field L), Some (spec_value L)]) ls\<rparr>"
proof -
  let ?data = "map (\<lambda>L. [(''Field'', spec_field L), (''Value'', spec_value L)]) ls"
  have "list_all (\<lambda>d. map fst d = [''Field'', ''Value'']) ?data"
    by (simp add: list_all_iff)
  with assms have "union_keys ?data = [''Field'', ''Value'']"
    by (intro union_keys_field_value) simp_all
  then show ?thesis
    by (simp add: DataFrame_records_def)
qed

lemma parse_receipt_eq:
  "parse_receipt T =
     Inr \<lparr>columns = [''Field'', ''Value''],
          rows = map (\<lambda>L. [Some (spec_field L), Some (spec_value L)])
                   (filter (\<lambda>L. colon \<in> set L) (py_split newline None T))\<rparr>"
proof (cases "filter (\<lambda>L. colon \<in> set L) (py_split newline None T) = []")
  case True
  then show ?thesis
    by (simp add: parse_receipt_def parse_lines_eq DataFrame_records_def union_keys_def
        df_empty_def DataFrame_dict_def)
next
  case False
  then show ?thesis
    by (simp add: parse_receipt_def parse_lines_eq DataFrame_records_lines df_empty_def)
qed

text \<open>
  What trimming means: \<open>py_strip\<close> removes a run of whitespace at each end and
  nothing else, and what remains neither starts nor ends with whitespace.
\<close>

lemma py_strip_decomp:
  "\<exists>a b. s = a @ py_strip s @ b \<and> list_all isspace a \<and> list_all isspace b"
proof -
  let ?a = "takeWhile isspace s"
  let ?m = "dropWhile isspace s"
  let ?b = "rev (takeWhile isspace (rev ?m))"
  have "?m = py_strip s @ ?b"
    unfolding py_strip_def py_rstrip_def py_lstrip_def
    by (metis rev_append rev_rev_ident takeWhile_dropWhile_id)
  then have "s = ?a @ py_strip s @ ?b"
    by (metis takeWhile_dropWhile_id)
  moreover have "list_all isspace ?a"
    by (simp add: list_all_iff) (meson set_takeWhileD)
  moreover have "list_all isspace ?b"
    by (simp add: list_all_iff) (meson set_takeWhileD)
  ultimately show ?thesis by blast
qed

lemma py_strip_ends:
  assumes "py_strip s \<noteq> []"
  shows "\<not> isspace (hd (py_strip s)) \<and> \<not> isspace (last (py_strip s))"
proof -
  let ?m = "dropWhile isspace s"
  let ?r = "dropWhile isspace (rev ?m)"
  have ps: "py_strip s = rev ?r"
    by (simp add: py_strip_def py_rstrip_def py_lstrip_def)
  with assms have r: "?r \<noteq> []" by simp
  have "last (py_strip s) = hd ?r"
    using r by (simp add: ps last_rev)
  moreover have "\<not> isspace (hd ?r)"
    using r by (rule hd_dropWhile)
  moreover have "?m = py_strip s @ rev (takeWhile isspace (rev ?m))"
    unfolding ps by (metis rev_append rev_rev_ident takeWhile_dropWhile_id)
  then have "hd ?m = hd (py_strip s)" and "?m \<noteq> []"
    using assms by (metis hd_append2, metis append_is_Nil_conv)
  then have "\<not> isspace (hd (py_strip s))"
    using hd_dropWhile [of isspace s] by simp
  ultimately show ?thesis by simp
qed

text \<open>The equations that evaluate the parser on a literal.\<close>

lemmas parse_eval =
  parse_receipt_def py_def py_split_def py_strip_def py_lstrip_def py_rstrip_def
  isspace_def DataFrame_records_def DataFrame_dict_def union_keys_def add_key_def
  df_empty_def spec_field_def spec_value_def

subsection \<open>Claims about the parser\<close>

text \<open>
  C1. For every text, \<^verbatim>\<open>parse_receipt\<close> returns a table with exactly as many rows
  as the text has lines containing a colon; a line without a colon adds nothing to
  the collected records.
\<close>

theorem parse_receipt_record_count:
  "(\<exists>df. parse_receipt T = Inr df \<and>
         length (rows df) = length (filter (\<lambda>L. colon \<in> set L) (py_split newline None T)))
   \<and> (colon \<notin> set L \<longrightarrow> parse_lines (L # ls) data = parse_lines ls data)"
  by (simp add: parse_receipt_eq)

theorem parse_receipt_record_count_witness:
  "length (filter (\<lambda>L. colon \<in> set L)
       (py_split newline None (py ''Total: 5.00\<newline>thank you\<newline>Time: 10:30''))) = 2
   \<and> (\<exists>df. parse_receipt (py ''Total: 5.00\<newline>thank you\<newline>Time: 10:30'') = Inr df
          \<and> length (rows df) = 2)
   \<and> colon \<notin> set (py ''thank you'')
   \<and> parse_lines [py ''thank you'', py ''Time: 10:30''] [] = parse_lines [py ''Time: 10:30''] []"
proof -
  let ?T = "py ''Total: 5.00\<newline>thank you\<newline>Time: 10:30''"
  have n: "length (filter (\<lambda>L. colon \<in> set L) (py_split newline None ?T)) = 2"
    by (simp add: py_def py_split_def)
  have c: "colon \<notin> set (py ''thank you'')"
    by (simp add: py_def)
  from parse_receipt_record_count [of ?T "py ''thank you''" "[py ''Time: 10:30'']" "[]"]
  show ?thesis
    unfolding n using c by blast
qed

text \<open>
  C2. Every line that contains a colon yields a row whose field is the part of the
  line before its first colon, trimmed, and whose value is the part after that
  colon, trimmed; later colons stay in the value, and an empty field or an empty
  value does not suppress the row.
\<close>

theorem parse_receipt_field_value:
  assumes "L \<in> set (py_split newline None T)" and "colon \<in> set L"
  shows "\<exists>df. parse_receipt T = Inr df \<and> columns df = [''Field'', ''Value''] \<and>
           [Some (spec_field L), Some (spec_value L)] \<in> set (rows df)"
  using assms by (simp add: parse_receipt_eq)

theorem parse_receipt_field_value_witness:
  "py ''Total:'' \<in> set (py_split newline None (py ''Time: 10:30\<newline>Total:\<newline>:5.00''))
   \<and> colon \<in> set (py ''Total:'')
   \<and> (\<exists>df. parse_receipt (py ''Time: 10:30\<newline>Total:\<newline>:5.00'') = Inr df
          \<and> columns df = [''Field'', ''Value'']
          \<and> [Some (py ''Total''), Some []] \<in> set (rows df))"
proof -
  have a: "py ''Total:'' \<in> set (py_split newline None (py ''Time: 10:30\<newline>Total:\<newline>:5.00''))"
    by (simp add: py_def py_split_def)
  have b: "colon \<in> set (py ''Total:'')"
    by (simp add: py_def)
  have c: "spec_field (py ''Total:'') = py ''Total''" "spec_value (py ''Total:'') = []"
    by (simp_all add: parse_eval)
  from parse_receipt_field_value [OF a b]
  have "\<exists>df. parse_receipt (py ''Time: 10:30\<newline>Total:\<newline>:5.00'') = Inr df
          \<and> columns df = [''Field'', ''Value'']
          \<and> [Some (py ''Total''), Some []] \<in> set (rows df)"
    unfolding c .
  with a b show ?thesis by blast
qed

text \<open>
  C3. The rows of the table are the records of the lines that contain a colon, taken
  in the order of those lines: one row per such line, nothing reordered, dropped as
  a duplicate or merged.
\<close>

theorem parse_receipt_order:
  "\<exists>df. parse_receipt T = Inr df \<and>
     rows df = map (\<lambda>L. [Some (spec_field L), Some (spec_value L)])
                 (filter (\<lambda>L. colon \<in> set L) (py_split newline None T))"
  by (simp add: parse_receipt_eq)

text \<open>
  C9. For every text the table has exactly the two columns Field and Value, in this
  order, also when it has no row.
\<close>

theorem parse_receipt_columns:
  "\<exists>df. parse_receipt T = Inr df \<and> columns df = [''Field'', ''Value'']"
  by (simp add: parse_receipt_eq)

text \<open>
  C10. A newline appended to the text does not change the table: the empty last
  line it creates has no colon.
\<close>

theorem parse_receipt_trailing_newline:
  "parse_receipt (T @ [newline]) = parse_receipt T"
  by (simp add: parse_receipt_eq py_split_snoc_newline)

subsection \<open>The examples of the specification\<close>

lemma parse_receipt_example_round_trip:
  "parse_receipt (py ''Total: 5.00\<newline>Time: 10:30'') =
     Inr \<lparr>columns = [''Field'', ''Value''],
          rows = [[Some (py ''Total''), Some (py ''5.00'')],
                  [Some (py ''Time''), Some (py ''10:30'')]]\<rparr>"
  by (simp add: parse_eval)

lemma parse_receipt_example_empty_value:
  "parse_receipt (py ''Subtotal:'') =
     Inr \<lparr>columns = [''Field'', ''Value''], rows = [[Some (py ''Subtotal''), Some []]]\<rparr>"
  by (simp add: parse_eval)

lemma parse_receipt_example_empty_field:
  "parse_receipt (py '':5.00'') =
     Inr \<lparr>columns = [''Field'', ''Value''], rows = [[Some [], Some (py ''5.00'')]]\<rparr>"
  by (simp add: parse_eval)

lemma parse_receipt_example_no_colon:
  "parse_receipt (py ''Random text without colon'') =
     Inr \<lparr>columns = [''Field'', ''Value''], rows = []\<rparr>"
  by (simp add: parse_eval)

lemma parse_receipt_example_empty_text:
  "parse_receipt [] = Inr \<lparr>columns = [''Field'', ''Value''], rows = []\<rparr>"
  by (simp add: parse_eval)

subsection \<open>Text without a delimiter\<close>

text \<open>
  No line of a text has a colon exactly when the text has none (the separator of
  lines is not a colon); the table is then the empty one with both columns.
\<close>

lemma split_scan_member:
  "c \<noteq> sep \<Longrightarrow>
   (\<exists>L \<in> set (split_scan sep None cur s). c \<in> set L) \<longleftrightarrow> c \<in> set cur \<union> set s"
  by (induction s arbitrary: cur) auto

lemma no_colon_lines_iff:
  "(\<forall>L \<in> set (py_split newline None T). colon \<notin> set L) \<longleftrightarrow> colon \<notin> set T"
  using split_scan_member [of colon newline "[]" T] by (auto simp: py_split_def)

lemma parse_receipt_no_colon:
  assumes "\<forall>L \<in> set (py_split newline None T). colon \<notin> set L"
  shows "parse_receipt T = Inr \<lparr>columns = [''Field'', ''Value''], rows = []\<rparr>"
proof -
  have "filter (\<lambda>L. colon \<in> set L) (py_split newline None T) = []"
    using assms by (simp add: filter_empty_conv)
  then show ?thesis
    by (simp add: parse_receipt_eq)
qed

lemma ocr_core_demo:
  "ocr_core (threshold_otsu (demo_env r)) (image_to_string (demo_env r))
     (Img3 [[(255, 255, 255)]]) = r"
  by (cases r) (simp_all add: ocr_core_def demo_env_def)

text \<open>
  C4. When no line of the text contains a colon (the empty text included),
  \<^verbatim>\<open>parse_receipt\<close> returns the empty table and raises nothing, and the page
  reports it with the warning that no key-value pairs were found and ends
  normally; a failure of recognition instead leaves \<^verbatim>\<open>main\<close> as an exception,
  with no warning shown.
\<close>

theorem empty_extraction_warning:
  assumes "\<forall>L \<in> set (py_split newline None T). colon \<notin> set L"
  shows "parse_receipt T = Inr \<lparr>columns = [''Field'', ''Value''], rows = []\<rparr>
    \<and> (uploaded_file inp = Some f \<and> Image_open E f = Inr img \<and>
        ocr_core (threshold_otsu E) (image_to_string E) img = Inr T \<longrightarrow>
          main E collection inp =
            ([ImageView, Subheader ''Extracted Text'', TextArea T, Warning no_pairs_msg]
             @ (if show_stored inp then show_stored_data E collection else []), None))
    \<and> (uploaded_file inp2 = Some f2 \<and> Image_open E2 f2 = Inr img2 \<and>
        ocr_core (threshold_otsu E2) (image_to_string E2) img2 = Inl e \<longrightarrow>
          main E2 collection2 inp2 = ([ImageView], Some e))"
proof -
  note p = parse_receipt_no_colon [OF assms]
  show ?thesis
    by (simp add: p main_def df_empty_def)
qed

theorem empty_extraction_warning_witness:
  "parse_receipt (py ''no pairs here'') = Inr \<lparr>columns = [''Field'', ''Value''], rows = []\<rparr>
   \<and> main (demo_env (Inr (py ''no pairs here''))) None demo_inputs =
       ([ImageView, Subheader ''Extracted Text'', TextArea (py ''no pairs here''),
         Warning no_pairs_msg], None)
   \<and> main (demo_env (Inl (Raised ''TesseractError''))) None demo_inputs =
       ([ImageView], Some (Raised ''TesseractError''))"
proof -
  have h: "\<forall>L \<in> set (py_split newline None (py ''no pairs here'')). colon \<notin> set L"
    by (simp add: py_def py_split_def)
  have o: "Image_open (demo_env r) () = Inr (Img3 [[(255, 255, 255)]])" for r
    by (simp add: demo_env_def)
  show ?thesis
    using empty_extraction_warning [OF h,
        of demo_inputs "()"
           "demo_env (Inr (py ''no pairs here''))" "Img3 [[(255, 255, 255)]]" None
           demo_inputs "()"
           "demo_env (Inl (Raised ''TesseractError''))" "Img3 [[(255, 255, 255)]]"
           "Raised ''TesseractError''" None]
    by (simp add: o ocr_core_demo demo_inputs_def)
qed

subsection \<open>Reading the store\<close>

text \<open>
  The columns of a table built from dicts are the keys of the dicts; popping a key
  removes that key and leaves every other lookup as it was.
\<close>

lemma set_fold_add_key: "set (fold add_key ks cols) = set ks \<union> set cols"
  by (induction ks arbitrary: cols) (auto simp: add_key_def)

lemma set_fold_keys:
  "set (fold (\<lambda>d cols. fold add_key (map fst d) cols) data cols) =
     (\<Union>d \<in> set data. fst ` set d) \<union> set cols"
  by (induction data arbitrary: cols) (auto simp: set_fold_add_key)

lemma set_union_keys: "set (union_keys data) = (\<Union>d \<in> set data. fst ` set d)"
  by (simp add: union_keys_def set_fold_keys)

lemma map_of_dict_pop: "map_of (dict_pop k d) = (map_of d)(k := None)"
  by (induction d) (auto simp: dict_pop_def)

lemma keys_dict_pop: "fst ` set (dict_pop k d) = fst ` set d - {k}"
  by (auto simp: dict_pop_def)

lemma DataFrame_records_popped:
  "\<exists>df. DataFrame_records (map (dict_pop k) docs) = df \<and>
        k \<notin> set (columns df) \<and>
        set (columns df) = (\<Union>d \<in> set docs. fst ` set d) - {k} \<and>
        rows df = map (\<lambda>d. map (map_of d) (columns df)) docs"
proof -
  let ?cols = "union_keys (map (dict_pop k) docs)"
  have cols: "set ?cols = (\<Union>d \<in> set docs. fst ` set d) - {k}"
    by (auto simp: set_union_keys keys_dict_pop)
  then have nk: "k \<notin> set ?cols" by simp
  have eq: "map (map_of (dict_pop k d)) ?cols = map (map_of d) ?cols" for d
    using nk by (auto simp: map_of_dict_pop)
  show ?thesis
    by (simp add: DataFrame_records_def Let_def comp_def eq cols)
qed

text \<open>
  C7. When the read of the collection returns records, the stored-data view shows
  one row per stored record, in order; the identifier \<^verbatim>\<open>_id\<close> is not among the
  columns, every other key of the records is, and every cell is the value the
  stored record has under that key. Popping \<^verbatim>\<open>_id\<close> changes no other key.
\<close>

theorem show_stored_strips_id:
  assumes "find_all E c = Inr docs" and "docs \<noteq> []"
  shows "\<exists>df. show_stored_data E (Some c) = [StoredTable df] \<and>
           length (rows df) = length docs \<and>
           ''_id'' \<notin> set (columns df) \<and>
           set (columns df) = (\<Union>d \<in> set docs. fst ` set d) - {''_id''} \<and>
           rows df = map (\<lambda>d. map (map_of d) (columns df)) docs \<and>
           map_of (dict_pop ''_id'' d) = (map_of d)(''_id'' := None)"
proof -
  obtain df where df: "DataFrame_records (map (dict_pop ''_id'') docs) = df"
    and p: "''_id'' \<notin> set (columns df)"
       "set (columns df) = (\<Union>d \<in> set docs. fst ` set d) - {''_id''}"
       "rows df = map (\<lambda>d. map (map_of d) (columns df)) docs"
    using DataFrame_records_popped [of "''_id''" docs] by blast
  have "show_stored_data E (Some c) = [StoredTable df]"
    using assms df by (simp add: show_stored_data_def)
  moreover from p(3) have "length (rows df) = length docs" by simp
  ultimately show ?thesis
    using p by (simp add: map_of_dict_pop)
qed

theorem show_stored_strips_id_witness:
  "find_all (demo_env (Inr [])) () = Inr [[(''_id'', 7), (''Field'', 1), (''Value'', 2)]]
   \<and> show_stored_data (demo_env (Inr [])) (Some ()) =
       [StoredTable \<lparr>columns = [''Field'', ''Value''], rows = [[Some 1, Some 2]]\<rparr>]
   \<and> (\<exists>df. show_stored_data (demo_env (Inr [])) (Some ()) = [StoredTable df] \<and>
           length (rows df) = 1 \<and> ''_id'' \<notin> set (columns df))"
proof -
  have f: "find_all (demo_env (Inr [])) () = Inr [[(''_id'', 7), (''Field'', 1), (''Value'', 2)]]"
    by (simp add: demo_env_def)
  have s: "show_stored_data (demo_env (Inr [])) (Some ()) =
       [StoredTable \<lparr>columns = [''Field'', ''Value''], rows = [[Some 1, Some 2]]\<rparr>]"
    by (simp add: show_stored_data_def demo_env_def DataFrame_records_def dict_pop_def
        union_keys_def add_key_def)
  from show_stored_strips_id [OF f]
  have "\<exists>df. show_stored_data (demo_env (Inr [])) (Some ()) = [StoredTable df] \<and>
           length (rows df) = 1 \<and> ''_id'' \<notin> set (columns df)"
    by auto
  with f s show ?thesis by blast
qed

subsection \<open>Independence from the store\<close>

text \<open>
  Neither the save button nor the stored-data view shows an event of the
  recognition path.
\<close>

lemma save_to_store_no_ocr_event: "filter ocr_event (save_to_store E collection df) = []"
  by (simp add: save_to_store_def split: option.splits)

lemma show_stored_data_no_ocr_event: "filter ocr_event (show_stored_data E collection) = []"
  by (simp add: show_stored_data_def split: option.splits sum.splits)

text \<open>
  C8. \<^verbatim>\<open>ocr_core\<close> and \<^verbatim>\<open>parse_receipt\<close> take no store. A failed connection at
  start-up shows one message in the sidebar and the script goes on into \<^verbatim>\<open>main\<close>;
  with the collection unbound \<^verbatim>\<open>main\<close> ends exactly as it does with a connected
  store (with the same exception or none), and shows the same image, extracted
  text, table or warning.
\<close>

theorem store_failure_keeps_ocr:
  "(\<exists>msg. script (Inl e) E inp =
            (SidebarError msg e # fst (main E None inp), snd (main E None inp)))
   \<and> snd (main E None inp) = snd (main E (Some c) inp)
   \<and> filter ocr_event (fst (main E None inp)) = filter ocr_event (fst (main E (Some c) inp))"
proof -
  have "\<exists>msg. script (Inl e) E inp =
            (SidebarError msg e # fst (main E None inp), snd (main E None inp))"
    by (simp add: script_def connect_store_def split: prod.splits)
  moreover have "snd (main E None inp) = snd (main E (Some c) inp)"
    by (simp add: main_def split: option.splits sum.splits)
  moreover have "filter ocr_event (fst (main E None inp)) =
      filter ocr_event (fst (main E (Some c) inp))"
    by (simp add: main_def save_to_store_no_ocr_event show_stored_data_no_ocr_event
        split: option.splits sum.splits)
  ultimately show ?thesis by blast
qed

subsection \<open>Preprocessing\<close>

text \<open>
  C5. The claim: preprocessing accepts every decodable image whatever its colour
  encoding, single-channel grey included, and converts to grey by the standard luma
  weights. The code: a single-channel image makes \<^verbatim>\<open>ocr_core\<close> raise OpenCV's
  error before any recognition. Moreover the array of an opened colour image holds
  red first, and the conversion reads the first channel as blue: a pure red pixel
  becomes 29, where the luma weights give 76.
\<close>

theorem ocr_core_rejects_grayscale:
  "ocr_core thr recognize (Img1 [[128]]) = Inl CvError
   \<and> cvtColor_BGR2GRAY (Img3 [[(255, 0, 0)]]) = Inr [[29]]
   \<and> bgr_to_gray 0 0 255 = 76"
  by (simp add: ocr_core_def bgr_to_gray_def)

text \<open>
  C6. The claim: preprocessing an already binary single-channel image again gives
  the same pixels. The code: on every single-channel image, binary or not,
  \<^verbatim>\<open>ocr_core\<close> raises OpenCV's error at the colour conversion, so no image is
  returned.
\<close>

theorem renormalize_binary_raises:
  "ocr_core thr recognize (Img1 px) = Inl CvError"
  by (simp add: ocr_core_def)

end
